theory Spec2Isabelle
  imports Complex_Main "HOL-Library.Sublist"
begin

section \<open>Decidr: a chat front-end over a remote chat-completion API\<close>

text \<open>
  The program is one Python script, \<^verbatim>\<open>Decidr.py\<close>. Its functions are
  \<^verbatim>\<open>get_headers\<close>, \<^verbatim>\<open>query_ai\<close>, \<^verbatim>\<open>initialize_session_state\<close>,
  \<^verbatim>\<open>create_system_prompt\<close> and \<^verbatim>\<open>main\<close>; the script body \<^verbatim>\<open>main\<close> is run once
  for every user action. What the script does to the outside (the HTTP request, the
  messages it shows) is recorded as a list of effects; what the outside gives back
  (the secrets store, the answer to the HTTP request, the widget values) is a parameter.
\<close>

subsection \<open>Python values\<close>

text \<open>
  The values \<^verbatim>\<open>response.json()\<close> can return. A dictionary is an association list read
  with \<open>map_of\<close>; \<open>JNull\<close> is Python's \<^verbatim>\<open>None\<close>.
\<close>

datatype json =
    JNull
  | JBool bool
  | JNum real
  | JStr string
  | JArr "json list"
  | JObj "(string \<times> json) list"

text \<open>
  The exceptions that can leave a function of the script. \<open>StopException\<close> and
  \<open>RerunException\<close> are what \<^verbatim>\<open>st.stop()\<close> and \<^verbatim>\<open>st.rerun()\<close> raise to end the
  current run of the script; the others are ordinary Python errors.
\<close>

datatype exn =
    IndexError | KeyError | TypeError | AttributeError | RecursionError | ValueError
  | StopException | RerunException

text \<open>Truth value of an object, as \<^verbatim>\<open>if x\<close> and \<^verbatim>\<open>x and y\<close> test it.\<close>

fun truthy :: "json \<Rightarrow> bool" where
  "truthy JNull = False"
| "truthy (JBool b) = b"
| "truthy (JNum n) = (n \<noteq> 0)"
| "truthy (JStr s) = (s \<noteq> [])"
| "truthy (JArr xs) = (xs \<noteq> [])"
| "truthy (JObj kvs) = (kvs \<noteq> [])"

text \<open>
  \<^verbatim>\<open>k in x\<close> for a string \<open>k\<close>: a key of a dictionary, an element of a list, a substring
  of a string; \<^verbatim>\<open>None\<close>, booleans and numbers are not iterable.
\<close>

fun py_in :: "string \<Rightarrow> json \<Rightarrow> exn + bool" where
  "py_in k (JObj kvs) = Inr (map_of kvs k \<noteq> None)"
| "py_in k (JArr xs) = Inr (JStr k \<in> set xs)"
| "py_in k (JStr s) = Inr (sublist k s)"
| "py_in k JNull = Inl TypeError"
| "py_in k (JBool b) = Inl TypeError"
| "py_in k (JNum n) = Inl TypeError"

text \<open>
  \<^verbatim>\<open>x[k]\<close> for a string \<open>k\<close>: a dictionary is looked up (\<^verbatim>\<open>KeyError\<close> when the key is
  missing); a list or a string takes integer indices only, and nothing else can be
  subscripted.
\<close>

fun getitem_str :: "json \<Rightarrow> string \<Rightarrow> exn + json" where
  "getitem_str (JObj kvs) k = (case map_of kvs k of None \<Rightarrow> Inl KeyError | Some v \<Rightarrow> Inr v)"
| "getitem_str (JArr xs) k = Inl TypeError"
| "getitem_str (JStr s) k = Inl TypeError"
| "getitem_str JNull k = Inl TypeError"
| "getitem_str (JBool b) k = Inl TypeError"
| "getitem_str (JNum n) k = Inl TypeError"

text \<open>
  \<^verbatim>\<open>x[0]\<close>: the first element of a list, the first character of a string
  (\<^verbatim>\<open>IndexError\<close> when empty); a dictionary from JSON has string keys only, so the key
  \<^verbatim>\<open>0\<close> is missing.
\<close>

fun getitem_0 :: "json \<Rightarrow> exn + json" where
  "getitem_0 (JArr []) = Inl IndexError"
| "getitem_0 (JArr (x # xs)) = Inr x"
| "getitem_0 (JStr []) = Inl IndexError"
| "getitem_0 (JStr (c # s)) = Inr (JStr [c])"
| "getitem_0 (JObj kvs) = Inl KeyError"
| "getitem_0 JNull = Inl TypeError"
| "getitem_0 (JBool b) = Inl TypeError"
| "getitem_0 (JNum n) = Inl TypeError"

subsection \<open>Messages, requests and effects\<close>

text \<open>
  A message is the dictionary \<^verbatim>\<open>{"role": ..., "content": ...}\<close>. The content of a user or
  system message is a string; the content of an assistant message is whatever the
  response carried at \<^verbatim>\<open>choices[0].message.content\<close>.
\<close>

record message =
  role :: string
  content :: json

text \<open>The dictionary \<^verbatim>\<open>payload\<close> of \<^verbatim>\<open>query_ai\<close>, sent as the JSON body.\<close>

record payload =
  p_messages :: "message list"
  p_model :: string
  p_max_tokens :: int
  p_temperature :: real
  p_stream :: bool

text \<open>The arguments of \<^verbatim>\<open>requests.post\<close>.\<close>

record request =
  url :: string
  headers :: "(string \<times> string) list"
  body_json :: payload

text \<open>
  What the script does to the outside: it issues an HTTP POST, shows an error box
  (\<^verbatim>\<open>st.error\<close>) or an info box (\<^verbatim>\<open>st.info\<close>), or renders a chat message
  (\<^verbatim>\<open>st.markdown\<close> inside \<^verbatim>\<open>st.chat_message(role)\<close>). The static decoration of the page
  (title, headers, tips, footer, spinners) is not recorded.
\<close>

datatype effect =
    Post request
  | StError string
  | StInfo string
  | ChatMessage string json

subsection \<open>The prompt builder\<close>

definition base_prompt :: string where
  "base_prompt =
    ''You are Decidr, an expert decision-making assistant. Your role is to help users make thoughtful, well-informed decisions by:\<newline>\<newline>1. Asking clarifying questions to understand the situation fully\<newline>2. Helping identify pros and cons\<newline>3. Considering different perspectives and potential outcomes\<newline>4. Suggesting decision-making frameworks when appropriate\<newline>5. Providing objective analysis while respecting the user's values and preferences\<newline>\<newline>Be conversational, empathetic, and practical. Ask one question at a time to avoid overwhelming the user. Help them think through their decision systematically.''"

definition create_system_prompt :: "string \<Rightarrow> string" where
  "create_system_prompt decision_context =
     (if decision_context \<noteq> []
      then base_prompt @ ''\<newline>\<newline>Current decision context: '' @ decision_context
      else base_prompt)"

subsection \<open>The API client\<close>

text \<open>
  The outside of \<^verbatim>\<open>query_ai\<close>, as the \<^verbatim>\<open>requests\<close> library presents it. Of an
  exception raised inside the \<^verbatim>\<open>try\<close> block only its class matters, and the text
  \<^verbatim>\<open>str(e)\<close> where it is shown: it is an instance of \<^verbatim>\<open>RequestException\<close>; or an
  instance of \<^verbatim>\<open>json.JSONDecodeError\<close> and not of \<^verbatim>\<open>RequestException\<close>; or of neither
  class. The JSON parser behind \<^verbatim>\<open>response.json()\<close> raises exceptions of the third kind
  on bodies the remote service can send: \<^verbatim>\<open>RecursionError\<close> on deeply nested brackets,
  \<^verbatim>\<open>ValueError\<close> on a number of several thousand digits; \<^verbatim>\<open>response.json()\<close> converts
  only the parser's \<^verbatim>\<open>JSONDecodeError\<close>.

  \<^verbatim>\<open>requests.post\<close> either raises or returns a response.
  \<^verbatim>\<open>response.raise_for_status()\<close> raises \<^verbatim>\<open>HTTPError\<close>, a \<^verbatim>\<open>RequestException\<close>, exactly
  for the status codes 400 to 599. \<^verbatim>\<open>response.json()\<close> returns the parsed body or
  raises; depending on the version of the library its decode error is a
  \<^verbatim>\<open>RequestException\<close> too, or a plain \<^verbatim>\<open>json.JSONDecodeError\<close>.
\<close>

datatype lib_exn = RequestException string | JSONDecodeError string | Uncaught exn

record http_response =
  status_code :: nat
  http_error_msg :: string
  json_result :: "lib_exn + json"

datatype http_outcome = Raises lib_exn | Responds http_response

definition raise_for_status :: "http_response \<Rightarrow> lib_exn option" where
  "raise_for_status r =
     (if 400 \<le> status_code r \<and> status_code r < 600
      then Some (RequestException (http_error_msg r)) else None)"

text \<open>The secrets store \<^verbatim>\<open>st.secrets\<close> and the remote service.\<close>

record env =
  secrets :: "string \<rightharpoonup> string"
  http_post :: "request \<Rightarrow> http_outcome"

definition API_URL :: string where
  "API_URL = ''https://router.huggingface.co/v1/chat/completions''"

definition default_model :: string where
  "default_model = ''Qwen/Qwen3-VL-8B-Instruct:novita''"

text \<open>
  \<^verbatim>\<open>get_headers\<close>: without the token it shows an error and an info box and stops the
  run (\<^verbatim>\<open>st.stop()\<close>).
\<close>

definition get_headers :: "env \<Rightarrow> effect list \<times> (exn + (string \<times> string) list)" where
  "get_headers e =
     (case secrets e ''HF_TOKEN'' of
        None \<Rightarrow>
          ([StError ''HF_TOKEN not found in secrets.toml. Please add it to your Streamlit secrets.'',
            StInfo (''Add the following to your .streamlit/secrets.toml file:\<newline>\<newline>```\<newline>HF_TOKEN = ''
                    @ [CHR 0x22] @ ''your_token_here'' @ [CHR 0x22] @ ''\<newline>```'')],
           Inl StopException)
      | Some hf_token \<Rightarrow>
          ([], Inr [(''Authorization'', ''Bearer '' @ hf_token),
                    (''Content-Type'', ''application/json'')]))"

text \<open>
  The two \<^verbatim>\<open>except\<close> clauses of \<^verbatim>\<open>query_ai\<close> (lines 46 to 51), tried in order: each
  shows an error box and returns \<^verbatim>\<open>None\<close> (\<open>JNull\<close>); an exception of another class
  matches neither and leaves the function.
\<close>

fun except_clauses :: "lib_exn \<Rightarrow> effect list \<times> (exn + json)" where
  "except_clauses (RequestException msg) =
     ([StError (''API request failed: '' @ msg)], Inr JNull)"
| "except_clauses (JSONDecodeError msg) =
     ([StError (''Failed to parse API response: '' @ msg)], Inr JNull)"
| "except_clauses (Uncaught ex) = ([], Inl ex)"

text \<open>
  \<^verbatim>\<open>query_ai\<close>. \<^verbatim>\<open>st.stop()\<close> inside \<^verbatim>\<open>get_headers\<close> is not caught and passes
  through. A parsed body \<^verbatim>\<open>null\<close> is returned as \<^verbatim>\<open>None\<close>, like a failure.
\<close>

definition query_ai :: "env \<Rightarrow> message list \<Rightarrow> string \<Rightarrow> effect list \<times> (exn + json)" where
  "query_ai e msgs model =
     (let payload = \<lparr>p_messages = msgs, p_model = model, p_max_tokens = 500,
                      p_temperature = 7 / 10, p_stream = False\<rparr>
      in case get_headers e of
           (es, Inl ex) \<Rightarrow> (es, Inl ex)
         | (es, Inr hs) \<Rightarrow>
             (let req = \<lparr>url = API_URL, headers = hs, body_json = payload\<rparr>
              in case http_post e req of
                   Raises ex \<Rightarrow>
                     (case except_clauses ex of (shown, r) \<Rightarrow> (es @ Post req # shown, r))
                 | Responds response \<Rightarrow>
                     (case raise_for_status response of
                        Some ex \<Rightarrow>
                          (case except_clauses ex of (shown, r) \<Rightarrow> (es @ Post req # shown, r))
                      | None \<Rightarrow>
                          (case json_result response of
                             Inl ex \<Rightarrow>
                               (case except_clauses ex of
                                  (shown, r) \<Rightarrow> (es @ Post req # shown, r))
                           | Inr j \<Rightarrow> (es @ [Post req], Inr j)))))"

subsection \<open>Session state\<close>

text \<open>
  \<^verbatim>\<open>st.session_state\<close> with the three keys the script uses; \<open>None\<close> is a key that
  is absent, and reading an absent key raises \<^verbatim>\<open>AttributeError\<close>.
\<close>

record session_state =
  messages :: "message list option"
  decision_context :: "string option"
  current_decision :: "string option"

definition initialize_session_state :: "session_state \<Rightarrow> session_state" where
  "initialize_session_state s =
     (let s1 = (if messages s = None then s\<lparr>messages := Some []\<rparr> else s);
          s2 = (if decision_context s1 = None then s1\<lparr>decision_context := Some []\<rparr> else s1);
          s3 = (if current_decision s2 = None then s2\<lparr>current_decision := Some []\<rparr> else s2)
      in s3)"

subsection \<open>The handlers of \<^verbatim>\<open>main\<close>\<close>

text \<open>
  A handler returns the session state it leaves, the effects it had, and how it ended:
  \<open>None\<close> when control falls out of its block, \<open>Some ex\<close> when the exception \<open>ex\<close>
  leaves it (\<^verbatim>\<open>st.rerun()\<close> included). Assignments to the session state made before
  an exception stay.
\<close>

type_synonym run = "session_state \<times> effect list \<times> exn option"

text \<open>The test \<^verbatim>\<open>response and "choices" in response\<close> (lines 115 and 168).\<close>

definition has_choices :: "json \<Rightarrow> exn + bool" where
  "has_choices response = (if truthy response then py_in ''choices'' response else Inr False)"

text \<open>The expression \<^verbatim>\<open>response["choices"][0]["message"]["content"]\<close> (lines 116 and 169).\<close>

definition ai_message_of :: "json \<Rightarrow> exn + json" where
  "ai_message_of response =
     (case getitem_str response ''choices'' of
        Inl ex \<Rightarrow> Inl ex
      | Inr choices \<Rightarrow>
          (case getitem_0 choices of
             Inl ex \<Rightarrow> Inl ex
           | Inr choice \<Rightarrow>
               (case getitem_str choice ''message'' of
                  Inl ex \<Rightarrow> Inl ex
                | Inr msg \<Rightarrow> getitem_str msg ''content'')))"

definition user_message :: "string \<Rightarrow> message" where
  "user_message text = \<lparr>role = ''user'', content = JStr text\<rparr>"

definition system_message :: "string \<Rightarrow> message" where
  "system_message ctx = \<lparr>role = ''system'', content = JStr (create_system_prompt ctx)\<rparr>"

definition assistant_message :: "json \<Rightarrow> message" where
  "assistant_message ai_message = \<lparr>role = ''assistant'', content = ai_message\<rparr>"

text \<open>The list \<^verbatim>\<open>initial_messages\<close> of lines 107 to 110.\<close>

definition initial_messages :: "string \<Rightarrow> message list" where
  "initial_messages ctx =
     [system_message ctx, user_message (''I need help deciding: '' @ ctx)]"

text \<open>
  The block of the button "Start New Decision" (lines 103 to 121); \<open>ctx\<close> is the local
  variable \<^verbatim>\<open>decision_context\<close>, the value of the text area.
\<close>

definition start_new_decision :: "env \<Rightarrow> string \<Rightarrow> session_state \<Rightarrow> run" where
  "start_new_decision e ctx s =
     (let s1 = s\<lparr>messages := Some [], current_decision := Some ctx\<rparr>
      in if ctx \<noteq> [] then
           (case query_ai e (initial_messages ctx) default_model of
              (es, Inl ex) \<Rightarrow> (s1, es, Some ex)
            | (es, Inr response) \<Rightarrow>
                (case has_choices response of
                   Inl ex \<Rightarrow> (s1, es, Some ex)
                 | Inr ok \<Rightarrow>
                     if ok then
                       (case ai_message_of response of
                          Inl ex \<Rightarrow> (s1, es, Some ex)
                        | Inr ai_message \<Rightarrow>
                            (s1\<lparr>messages :=
                                  Some [user_message (''I need help deciding: '' @ ctx),
                                        assistant_message ai_message]\<rparr>,
                             es, Some RerunException))
                     else (s1, es, Some RerunException)))
         else (s1, [], Some RerunException))"

text \<open>The block of the button "Clear Conversation" (lines 125 and 126).\<close>

definition clear_conversation :: "session_state \<Rightarrow> run" where
  "clear_conversation s = (s\<lparr>messages := Some []\<rparr>, [], Some RerunException)"

text \<open>The list \<^verbatim>\<open>ai_messages\<close> of lines 160 and 161.\<close>

definition ai_messages :: "string \<Rightarrow> message list \<Rightarrow> message list" where
  "ai_messages ctx ms = [system_message ctx] @ ms"

text \<open>The block of the chat input (lines 153 to 175), run when \<^verbatim>\<open>prompt\<close> is not empty.\<close>

definition submit_message :: "env \<Rightarrow> string \<Rightarrow> session_state \<Rightarrow> run" where
  "submit_message e prompt s =
     (case messages s of
        None \<Rightarrow> (s, [], Some AttributeError)
      | Some ms \<Rightarrow>
          (let s1 = s\<lparr>messages := Some (ms @ [user_message prompt])\<rparr>;
               shown = [ChatMessage ''user'' (JStr prompt)]
           in case decision_context s1 of
                None \<Rightarrow> (s1, shown, Some AttributeError)
              | Some ctx \<Rightarrow>
                  (case query_ai e (ai_messages ctx (ms @ [user_message prompt])) default_model of
                     (es, Inl ex) \<Rightarrow> (s1, shown @ es, Some ex)
                   | (es, Inr response) \<Rightarrow>
                       (case has_choices response of
                          Inl ex \<Rightarrow> (s1, shown @ es, Some ex)
                        | Inr ok \<Rightarrow>
                            if ok then
                              (case ai_message_of response of
                                 Inl ex \<Rightarrow> (s1, shown @ es, Some ex)
                               | Inr ai_message \<Rightarrow>
                                   (s1\<lparr>messages :=
                                         Some (ms @ [user_message prompt]
                                                  @ [assistant_message ai_message])\<rparr>,
                                    shown @ es @ [ChatMessage ''assistant'' ai_message], None))
                            else
                              (s1, shown @ es
                                   @ [StError ''Sorry, I couldn't get a response. Please try again.''],
                               None)))))"

text \<open>The blocks of the three example buttons (lines 190 to 205).\<close>

definition moving_prompt :: string where
  "moving_prompt = ''I'm trying to decide whether to move to a new city for a job opportunity. Can you help me think through this decision?''"

definition education_prompt :: string where
  "education_prompt = ''I'm having trouble choosing between different college majors. How should I approach this decision?''"

definition career_prompt :: string where
  "career_prompt = ''I'm considering changing careers but I'm not sure if it's the right move. Can you help me evaluate this?''"

definition example_click :: "string \<Rightarrow> session_state \<Rightarrow> run" where
  "example_click example_prompt s =
     (case messages s of
        None \<Rightarrow> (s, [], Some AttributeError)
      | Some ms \<Rightarrow>
          (s\<lparr>messages := Some (ms @ [user_message example_prompt])\<rparr>, [], Some RerunException))"

subsection \<open>The script\<close>

text \<open>
  The widget values of one run: the text of the decision-context text area, which
  button was pressed, and what \<^verbatim>\<open>st.chat_input\<close> returned.
\<close>

record ui =
  text_area :: string
  start_button :: bool
  clear_button :: bool
  chat_input :: "string option"
  moving_button :: bool
  education_button :: bool
  career_button :: bool

text \<open>The loop that renders the history (lines 146 to 148).\<close>

definition show_history :: "message list \<Rightarrow> effect list" where
  "show_history ms = map (\<lambda>m. ChatMessage (role m) (content m)) ms"

text \<open>
  The part of \<^verbatim>\<open>main\<close> under the comment "Main chat interface" (lines 142 to 205): it
  renders the history, handles the chat input, and, while the history is empty, offers
  the three example buttons.
\<close>

definition chat_interface :: "env \<Rightarrow> ui \<Rightarrow> session_state \<Rightarrow> run" where
  "chat_interface e u s1 =
     (case messages s1 of
        None \<Rightarrow> (s1, [], Some AttributeError)
      | Some ms \<Rightarrow>
          (case (case chat_input u of
                   None \<Rightarrow> (s1, [], None)
                 | Some prompt \<Rightarrow>
                     if prompt \<noteq> [] then submit_message e prompt s1
                     else (s1, [], None)) of
             (s2, es, Some ex) \<Rightarrow> (s2, show_history ms @ es, Some ex)
           | (s2, es, None) \<Rightarrow>
               (case messages s2 of
                  None \<Rightarrow> (s2, show_history ms @ es, Some AttributeError)
                | Some ms2 \<Rightarrow>
                    if ms2 = [] then
                      (if moving_button u then
                         (case example_click moving_prompt s2 of
                            (s3, es3, end3) \<Rightarrow> (s3, show_history ms @ es @ es3, end3))
                       else if education_button u then
                         (case example_click education_prompt s2 of
                            (s3, es3, end3) \<Rightarrow> (s3, show_history ms @ es @ es3, end3))
                       else if career_button u then
                         (case example_click career_prompt s2 of
                            (s3, es3, end3) \<Rightarrow> (s3, show_history ms @ es @ es3, end3))
                       else (s2, show_history ms @ es, None))
                    else (s2, show_history ms @ es, None))))"

text \<open>
  \<^verbatim>\<open>main\<close>, one run of the script: the session state is initialised, the text area is
  copied into \<^verbatim>\<open>decision_context\<close>, then the two sidebar buttons and the chat
  interface follow. \<^verbatim>\<open>st.rerun()\<close> ends the run, so the blocks after a pressed button
  are not reached.
\<close>

definition main :: "env \<Rightarrow> ui \<Rightarrow> session_state \<Rightarrow> run" where
  "main e u s0 =
     (let s = initialize_session_state s0
      in case decision_context s of
           None \<Rightarrow> (s, [], Some AttributeError)
         | Some old \<Rightarrow>
             (let ctx = text_area u;
                  s1 = (if ctx \<noteq> old then s\<lparr>decision_context := Some ctx\<rparr> else s)
              in if start_button u then start_new_decision e ctx s1
                 else if clear_button u then clear_conversation s1
                 else chat_interface e u s1))"

definition no_system :: "message list \<Rightarrow> bool" where
  "no_system ms = (\<forall>m \<in> set ms. role m \<noteq> ''system'')"

subsection \<open>Sequences of calls, and sample environments\<close>

text \<open>
  What a handler reads out of one round trip: \<open>Some a\<close> when \<^verbatim>\<open>query_ai\<close> returns a
  response that passes the test of lines 115 and 168 and the expression of lines 116
  and 169 evaluates to \<open>a\<close>; \<open>None\<close> in every other case (no token, no connection,
  failure status, malformed body, a response of another shape).
\<close>

definition api_reply :: "env \<Rightarrow> message list \<Rightarrow> json option" where
  "api_reply e msgs =
     (case snd (query_ai e msgs default_model) of
        Inl ex \<Rightarrow> None
      | Inr response \<Rightarrow>
          if has_choices response = Inr True
          then (case ai_message_of response of Inl ex \<Rightarrow> None | Inr a \<Rightarrow> Some a)
          else None)"

text \<open>
  A chat submission succeeds in a state when its round trip does. \<open>submit_all\<close> runs a
  sequence of submissions, each against its own environment; \<open>all_succeed\<close> says that
  each of them succeeds in the state it is run in.
\<close>

definition submit_succeeds :: "env \<Rightarrow> string \<Rightarrow> session_state \<Rightarrow> bool" where
  "submit_succeeds e prompt s =
     (case (messages s, decision_context s) of
        (Some ms, Some ctx) \<Rightarrow> api_reply e (ai_messages ctx (ms @ [user_message prompt])) \<noteq> None
      | _ \<Rightarrow> False)"

fun submit_all :: "(env \<times> string) list \<Rightarrow> session_state \<Rightarrow> session_state" where
  "submit_all [] s = s"
| "submit_all ((e, prompt) # calls) s = submit_all calls (fst (submit_message e prompt s))"

fun all_succeed :: "(env \<times> string) list \<Rightarrow> session_state \<Rightarrow> bool" where
  "all_succeed [] s = True"
| "all_succeed ((e, prompt) # calls) s =
     (submit_succeeds e prompt s \<and> all_succeed calls (fst (submit_message e prompt s)))"

fun alternating :: "message list \<Rightarrow> bool" where
  "alternating [] = True"
| "alternating [m] = (role m = ''user'')"
| "alternating (m # m' # ms) = (role m = ''user'' \<and> role m' = ''assistant'' \<and> alternating ms)"


text \<open>
  Sample environments: a service that answers every request with status 200 and the
  JSON value \<open>j\<close>, one that cannot be reached, one on whose body the parser raises an
  exception of another class, a well-formed completion carrying the reply \<open>a\<close>, a
  completion with two choices, and the session state after the first
  \<^verbatim>\<open>initialize_session_state\<close>.
\<close>

definition api_returning :: "json \<Rightarrow> env" where
  "api_returning j =
     \<lparr>secrets = [''HF_TOKEN'' \<mapsto> ''token''],
      http_post = (\<lambda>req. Responds \<lparr>status_code = 200, http_error_msg = [], json_result = Inr j\<rparr>)\<rparr>"

definition reply_with :: "json \<Rightarrow> json" where
  "reply_with a =
     JObj [(''choices'', JArr [JObj [(''message'', JObj [(''role'', JStr ''assistant''), (''content'', a)])]])]"

definition fresh :: session_state where
  "fresh = initialize_session_state \<lparr>messages = None, decision_context = None, current_decision = None\<rparr>"

definition api_unreachable :: env where
  "api_unreachable =
     \<lparr>secrets = [''HF_TOKEN'' \<mapsto> ''token''],
      http_post = (\<lambda>req. Raises (RequestException ''connection refused''))\<rparr>"

definition api_parser_raising :: "exn \<Rightarrow> env" where
  "api_parser_raising ex =
     \<lparr>secrets = [''HF_TOKEN'' \<mapsto> ''token''],
      http_post = (\<lambda>req. Responds \<lparr>status_code = 200, http_error_msg = [],
                                       json_result = Inl (Uncaught ex)\<rparr>)\<rparr>"

definition two_choices :: "json \<Rightarrow> json \<Rightarrow> json" where
  "two_choices a b =
     JObj [(''id'', JStr ''cmpl-1''),
           (''choices'',
            JArr [JObj [(''index'', JNum 0),
                        (''message'', JObj [(''role'', JStr ''assistant''), (''content'', a)])],
                  JObj [(''index'', JNum 1),
                        (''message'', JObj [(''role'', JStr ''assistant''), (''content'', b)])]])]"

section \<open>Properties\<close>

subsection \<open>Helper lemmas\<close>

lemma api_reply_SomeD:
  "api_reply e msgs = Some a \<Longrightarrow>
     \<exists>es response. query_ai e msgs default_model = (es, Inr response)
        \<and> has_choices response = Inr True \<and> ai_message_of response = Inr a"
  by (cases "query_ai e msgs default_model")
     (auto simp: api_reply_def split: sum.splits if_splits)

lemma submit_message_success:
  assumes "messages s = Some ms" and "decision_context s = Some ctx"
    and "api_reply e (ai_messages ctx (ms @ [user_message prompt])) = Some a"
  shows "submit_message e prompt s =
           (s\<lparr>messages := Some (ms @ [user_message prompt, assistant_message a])\<rparr>,
            ChatMessage ''user'' (JStr prompt)
              # fst (query_ai e (ai_messages ctx (ms @ [user_message prompt])) default_model)
              @ [ChatMessage ''assistant'' a],
            None)"
  using api_reply_SomeD[OF assms(3)] assms(1,2)
  by (auto simp: submit_message_def)

lemma submit_message_keeps_context:
  "decision_context (fst (submit_message e prompt s)) = decision_context s"
  by (auto simp: submit_message_def Let_def split: option.splits prod.splits sum.splits)

lemma alternating_snoc2:
  "alternating ms \<Longrightarrow> even (length ms) \<Longrightarrow> role u = ''user'' \<Longrightarrow> role a = ''assistant''
     \<Longrightarrow> alternating (ms @ [u, a])"
  by (induction ms rule: alternating.induct) auto

lemma submit_all_invariant:
  assumes "messages s = Some ms0" and "alternating ms0" and "even (length ms0)"
    and "all_succeed calls s"
  shows "\<exists>ms. messages (submit_all calls s) = Some ms
           \<and> length ms = length ms0 + 2 * length calls \<and> alternating ms
           \<and> decision_context (submit_all calls s) = decision_context s"
  using assms
proof (induction calls arbitrary: s ms0)
  case Nil
  then show ?case by simp
next
  case (Cons c calls)
  obtain e prompt where c: "c = (e, prompt)" by (cases c)
  from Cons.prems(4) c have ok: "submit_succeeds e prompt s"
    and rest: "all_succeed calls (fst (submit_message e prompt s))" by simp_all
  from ok Cons.prems(1) obtain ctx a where ctx: "decision_context s = Some ctx"
    and a: "api_reply e (ai_messages ctx (ms0 @ [user_message prompt])) = Some a"
    by (auto simp: submit_succeeds_def split: option.splits)
  let ?s' = "fst (submit_message e prompt s)"
  have m': "messages ?s' = Some (ms0 @ [user_message prompt, assistant_message a])"
    by (simp add: submit_message_success[OF Cons.prems(1) ctx a])
  have alt: "alternating (ms0 @ [user_message prompt, assistant_message a])"
    by (rule alternating_snoc2[OF Cons.prems(2,3)])
       (simp_all add: user_message_def assistant_message_def)
  have ev: "even (length (ms0 @ [user_message prompt, assistant_message a]))"
    using Cons.prems(3) by simp
  from Cons.IH[OF m' alt ev rest] c show ?case
    by (auto simp: submit_message_keeps_context)
qed

lemma api_reply_NoneD:
  "api_reply e msgs = None \<Longrightarrow> query_ai e msgs default_model = (es, Inr response)
     \<Longrightarrow> has_choices response = Inr True \<Longrightarrow> ai_message_of response = Inr a \<Longrightarrow> False"
  by (simp add: api_reply_def)

lemma except_clauses_shown:
  "x \<in> set (fst (except_clauses ex)) \<Longrightarrow> \<exists>msg. x = StError msg"
  by (cases ex) simp_all

lemma except_clauses_caught:
  "except_clauses (RequestException msg) = (shown, r) \<Longrightarrow> r = Inr JNull \<and> shown \<noteq> []"
  "except_clauses (JSONDecodeError msg) = (shown, r) \<Longrightarrow> r = Inr JNull \<and> shown \<noteq> []"
  by auto

subsection \<open>The claims\<close>

text \<open>
  C1. The claim: whatever response object the API returns, the handlers of "Start New
  Decision" and of the chat input either store or show the reply or show an error, and
  no exception leaves them. The code does not do so: for the response
  \<^verbatim>\<open>{"choices": []}\<close> the test of lines 115 and 168 passes and the subscript
  \<^verbatim>\<open>[0]\<close> of lines 116 and 169 raises \<^verbatim>\<open>IndexError\<close>; no error box is shown and no
  reply is stored. A choice without the key \<^verbatim>\<open>message\<close> raises \<^verbatim>\<open>KeyError\<close> in the same
  way. And for a response without the key \<^verbatim>\<open>choices\<close> the handler of "Start New
  Decision" stores nothing and shows no error either: the test of line 115 has no
  \<^verbatim>\<open>else\<close> branch, where the chat handler has one (line 175).
\<close>

theorem empty_choices_raises:
  "snd (snd (start_new_decision (api_returning (JObj [(''choices'', JArr [])])) ''job'' fresh))
     = Some IndexError
   \<and> messages (fst (start_new_decision (api_returning (JObj [(''choices'', JArr [])])) ''job'' fresh))
     = Some []
   \<and> snd (snd (submit_message (api_returning (JObj [(''choices'', JArr [])])) ''hello'' fresh))
     = Some IndexError
   \<and> messages (fst (submit_message (api_returning (JObj [(''choices'', JArr [])])) ''hello'' fresh))
     = Some [user_message ''hello'']
   \<and> (\<forall>msg. StError msg \<notin> set (fst (snd (start_new_decision
          (api_returning (JObj [(''choices'', JArr [])])) ''job'' fresh))))
   \<and> (\<forall>msg. StError msg \<notin> set (fst (snd (submit_message
          (api_returning (JObj [(''choices'', JArr [])])) ''hello'' fresh))))
   \<and> snd (snd (submit_message
          (api_returning (JObj [(''choices'', JArr [JObj [(''index'', JNum 0)]])])) ''hello'' fresh))
     = Some KeyError
   \<and> messages (fst (start_new_decision
          (api_returning (JObj [(''error'', JStr ''busy'')])) ''job'' fresh)) = Some []
   \<and> (\<forall>msg. StError msg \<notin> set (fst (snd (start_new_decision
          (api_returning (JObj [(''error'', JStr ''busy'')])) ''job'' fresh))))"
  by (simp add: start_new_decision_def submit_message_def api_returning_def query_ai_def
        get_headers_def raise_for_status_def has_choices_def ai_message_of_def fresh_def
        initialize_session_state_def)

text \<open>
  C2. "Start New Decision" leaves the history empty when the context is empty, when
  \<^verbatim>\<open>query_ai\<close> returns \<^verbatim>\<open>None\<close> or raises, and in general when the round trip gives no
  reply, whatever the history was before. With a non-empty context and a response
  whose \<^verbatim>\<open>choices\<close> is a list, whose first choice has a \<^verbatim>\<open>message\<close> with the content
  \<open>a\<close>, it leaves exactly two messages: the user message with the text
  "I need help deciding: " followed by the context, and the assistant message with the
  content \<open>a\<close>. The request it sends carries the system prompt and that user message.
\<close>

theorem start_new_decision_messages:
  "(ctx = [] \<longrightarrow> messages (fst (start_new_decision e ctx s)) = Some [])
   \<and> (snd (query_ai e [\<lparr>role = ''system'', content = JStr (create_system_prompt ctx)\<rparr>, \<lparr>role = ''user'', content = JStr (''I need help deciding: '' @ ctx)\<rparr>] default_model) = Inr JNull \<longrightarrow>
        messages (fst (start_new_decision e ctx s)) = Some [])
   \<and> (snd (query_ai e [\<lparr>role = ''system'', content = JStr (create_system_prompt ctx)\<rparr>, \<lparr>role = ''user'', content = JStr (''I need help deciding: '' @ ctx)\<rparr>] default_model) = Inl ex \<longrightarrow>
        messages (fst (start_new_decision e ctx s)) = Some [])
   \<and> (api_reply e [\<lparr>role = ''system'', content = JStr (create_system_prompt ctx)\<rparr>, \<lparr>role = ''user'', content = JStr (''I need help deciding: '' @ ctx)\<rparr>] = None \<longrightarrow>
        messages (fst (start_new_decision e ctx s)) = Some [])
   \<and> (ctx \<noteq> []
        \<and> snd (query_ai e [\<lparr>role = ''system'', content = JStr (create_system_prompt ctx)\<rparr>, \<lparr>role = ''user'', content = JStr (''I need help deciding: '' @ ctx)\<rparr>] default_model) = Inr (JObj kvs)
        \<and> map_of kvs ''choices'' = Some (JArr (JObj ckvs # others))
        \<and> map_of ckvs ''message'' = Some (JObj mkvs)
        \<and> map_of mkvs ''content'' = Some a \<longrightarrow>
        messages (fst (start_new_decision e ctx s)) =
          Some [\<lparr>role = ''user'', content = JStr (''I need help deciding: '' @ ctx)\<rparr>, \<lparr>role = ''assistant'', content = a\<rparr>])"
proof -
  have im: "initial_messages ctx = [\<lparr>role = ''system'', content = JStr (create_system_prompt ctx)\<rparr>, \<lparr>role = ''user'', content = JStr (''I need help deciding: '' @ ctx)\<rparr>]"
    by (simp add: initial_messages_def system_message_def user_message_def)
  obtain es r where q: "query_ai e [\<lparr>role = ''system'', content = JStr (create_system_prompt ctx)\<rparr>, \<lparr>role = ''user'', content = JStr (''I need help deciding: '' @ ctx)\<rparr>] default_model = (es, r)"
    by (cases "query_ai e [\<lparr>role = ''system'', content = JStr (create_system_prompt ctx)\<rparr>, \<lparr>role = ''user'', content = JStr (''I need help deciding: '' @ ctx)\<rparr>] default_model")
  have shape: "has_choices (JObj kvs) = Inr True \<and> ai_message_of (JObj kvs) = Inr a"
    if "map_of kvs ''choices'' = Some (JArr (JObj ckvs # others))"
      and "map_of ckvs ''message'' = Some (JObj mkvs)" and "map_of mkvs ''content'' = Some a"
    using that by (auto simp: has_choices_def ai_message_of_def)
  show ?thesis
    using q shape
    by (cases r)
       (auto simp: start_new_decision_def api_reply_def im Let_def has_choices_def
                   user_message_def assistant_message_def
             split: sum.splits if_splits)
qed

theorem start_new_decision_messages_witness:
  "messages (fst (start_new_decision (api_returning (two_choices (JStr ''Hi'') (JStr ''Ho'')))
       [] (fresh\<lparr>messages := Some [\<lparr>role = ''user'', content = JStr ''old''\<rparr>]\<rparr>))) = Some []
   \<and> messages (fst (start_new_decision api_unreachable ''job''
       (fresh\<lparr>messages := Some [\<lparr>role = ''user'', content = JStr ''old''\<rparr>]\<rparr>))) = Some []
   \<and> messages (fst (start_new_decision (api_returning (two_choices (JStr ''Hi'') (JStr ''Ho'')))
       ''job'' (fresh\<lparr>messages := Some [\<lparr>role = ''user'', content = JStr ''old''\<rparr>]\<rparr>))) =
       Some [\<lparr>role = ''user'', content = JStr ''I need help deciding: job''\<rparr>,
             \<lparr>role = ''assistant'', content = JStr ''Hi''\<rparr>]"
proof -
  let ?s = "fresh\<lparr>messages := Some [\<lparr>role = ''user'', content = JStr ''old''\<rparr>]\<rparr>"
  let ?ok = "api_returning (two_choices (JStr ''Hi'') (JStr ''Ho''))"
  let ?msgs = "[\<lparr>role = ''system'', content = JStr (create_system_prompt ''job'')\<rparr>,
                \<lparr>role = ''user'', content = JStr (''I need help deciding: '' @ ''job'')\<rparr>]"
  have none: "snd (query_ai api_unreachable ?msgs default_model) = Inr JNull"
    by (simp add: query_ai_def get_headers_def api_unreachable_def)
  have some: "snd (query_ai ?ok ?msgs default_model) = Inr (two_choices (JStr ''Hi'') (JStr ''Ho''))"
    by (simp add: query_ai_def get_headers_def raise_for_status_def api_returning_def)
  show ?thesis
    using none some
      start_new_decision_messages [of "[]" ?ok ?s]
      start_new_decision_messages [of "''job''" api_unreachable ?s]
      start_new_decision_messages [of "''job''" ?ok ?s _
        "[(''id'', JStr ''cmpl-1''),
          (''choices'',
            JArr [JObj [(''index'', JNum 0),
                        (''message'', JObj [(''role'', JStr ''assistant''), (''content'', JStr ''Hi'')])],
                  JObj [(''index'', JNum 1),
                        (''message'', JObj [(''role'', JStr ''assistant''), (''content'', JStr ''Ho'')])]])]"
        "[(''index'', JNum 0),
          (''message'', JObj [(''role'', JStr ''assistant''), (''content'', JStr ''Hi'')])]"
        "[JObj [(''index'', JNum 1),
                (''message'', JObj [(''role'', JStr ''assistant''), (''content'', JStr ''Ho'')])]]"
        "[(''role'', JStr ''assistant''), (''content'', JStr ''Hi'')]"
        "JStr ''Hi''"]
    by (simp add: two_choices_def)
qed

text \<open>
  C3. Starting from the empty history, after any sequence of chat submissions that all
  succeed the history has twice as many messages as there were submissions and
  alternates user, assistant, user, assistant, ...; and one more successful submission
  appends exactly its user message and then one assistant message.
\<close>

theorem submit_all_alternates:
  assumes "messages s = Some []" and "all_succeed calls s"
  shows "\<exists>ms. messages (submit_all calls s) = Some ms
           \<and> length ms = 2 * length calls \<and> alternating ms
           \<and> (\<forall>e prompt. submit_succeeds e prompt (submit_all calls s) \<longrightarrow>
                 (\<exists>a. messages (fst (submit_message e prompt (submit_all calls s))) =
                        Some (ms @ [user_message prompt, assistant_message a])))"
proof -
  from submit_all_invariant[OF assms(1) _ _ assms(2)]
  obtain ms where ms: "messages (submit_all calls s) = Some ms"
    and len: "length ms = 2 * length calls" and alt: "alternating ms"
    by auto
  have "\<exists>a. messages (fst (submit_message e prompt (submit_all calls s))) =
              Some (ms @ [user_message prompt, assistant_message a])"
    if "submit_succeeds e prompt (submit_all calls s)" for e prompt
  proof -
    from that ms obtain ctx a where "decision_context (submit_all calls s) = Some ctx"
      and "api_reply e (ai_messages ctx (ms @ [user_message prompt])) = Some a"
      by (auto simp: submit_succeeds_def split: option.splits)
    then show ?thesis
      using submit_message_success[OF ms] by fastforce
  qed
  with ms len alt show ?thesis by blast
qed

theorem submit_all_alternates_witness:
  "messages fresh = Some []
   \<and> all_succeed [(api_returning (reply_with (JStr ''Hi'')), ''a''),
                  (api_returning (reply_with (JStr ''Ho'')), ''b'')] fresh
   \<and> (\<exists>ms. messages (submit_all [(api_returning (reply_with (JStr ''Hi'')), ''a''),
                                (api_returning (reply_with (JStr ''Ho'')), ''b'')] fresh) = Some ms
          \<and> length ms = 4 \<and> alternating ms)"
proof -
  have m: "messages fresh = Some []"
    by (simp add: fresh_def initialize_session_state_def)
  have ok: "all_succeed [(api_returning (reply_with (JStr ''Hi'')), ''a''),
                         (api_returning (reply_with (JStr ''Ho'')), ''b'')] fresh"
    by (simp add: submit_succeeds_def submit_message_def fresh_def initialize_session_state_def
          api_reply_def query_ai_def get_headers_def raise_for_status_def has_choices_def ai_message_of_def api_returning_def api_unreachable_def reply_with_def)
  show ?thesis
    using m ok submit_all_alternates [OF m ok] by auto
qed

text \<open>
  C4. When the round trip of a chat submission with the text \<open>x\<close> gives no reply, the
  history afterwards is the history before followed by one message with the role
  \<^verbatim>\<open>user\<close> and the content \<open>x\<close>: every earlier entry is where it was, and no assistant
  message follows.
\<close>

theorem submit_message_failure:
  assumes "messages s = Some ms" and "decision_context s = Some ctx"
    and "api_reply e
           (\<lparr>role = ''system'', content = JStr (create_system_prompt ctx)\<rparr>
              # ms @ [\<lparr>role = ''user'', content = JStr x\<rparr>]) = None"
  shows "messages (fst (submit_message e x s)) =
           Some (ms @ [\<lparr>role = ''user'', content = JStr x\<rparr>])"
proof -
  have none: "api_reply e (ai_messages ctx (ms @ [user_message x])) = None"
    using assms(3) by (simp add: ai_messages_def system_message_def user_message_def)
  show ?thesis
    using assms(1,2) api_reply_NoneD [OF none]
    by (auto simp: submit_message_def Let_def user_message_def split: prod.splits sum.splits)
qed

theorem submit_message_failure_witness:
  "messages (fresh\<lparr>messages := Some [\<lparr>role = ''user'', content = JStr ''a''\<rparr>,
                                      \<lparr>role = ''assistant'', content = JStr ''b''\<rparr>]\<rparr>)
     = Some [\<lparr>role = ''user'', content = JStr ''a''\<rparr>,
             \<lparr>role = ''assistant'', content = JStr ''b''\<rparr>]
   \<and> decision_context (fresh\<lparr>messages := Some [\<lparr>role = ''user'', content = JStr ''a''\<rparr>,
                                      \<lparr>role = ''assistant'', content = JStr ''b''\<rparr>]\<rparr>) = Some []
   \<and> messages (fst (submit_message api_unreachable ''X''
        (fresh\<lparr>messages := Some [\<lparr>role = ''user'', content = JStr ''a''\<rparr>,
                                  \<lparr>role = ''assistant'', content = JStr ''b''\<rparr>]\<rparr>)))
       = Some [\<lparr>role = ''user'', content = JStr ''a''\<rparr>,
               \<lparr>role = ''assistant'', content = JStr ''b''\<rparr>,
               \<lparr>role = ''user'', content = JStr ''X''\<rparr>]"
proof -
  let ?ms = "[\<lparr>role = ''user'', content = JStr ''a''\<rparr>,
              \<lparr>role = ''assistant'', content = JStr ''b''\<rparr>]"
  let ?s = "fresh\<lparr>messages := Some ?ms\<rparr>"
  have m: "messages ?s = Some ?ms"
    by simp
  have c: "decision_context ?s = Some []"
    by (simp add: fresh_def initialize_session_state_def)
  have none: "api_reply api_unreachable
        (\<lparr>role = ''system'', content = JStr (create_system_prompt [])\<rparr>
              # ?ms @ [\<lparr>role = ''user'', content = JStr ''X''\<rparr>]) = None"
    by (simp add: api_reply_def query_ai_def get_headers_def has_choices_def api_unreachable_def)
  show ?thesis
    using m c submit_message_failure [OF m c none] by simp
qed

text \<open>
  What \<^verbatim>\<open>query_ai\<close> does when the token is configured and nothing but the two caught
  classes is raised: it issues exactly one POST, whose body carries the given messages
  and model, \<^verbatim>\<open>max_tokens\<close> 500, \<^verbatim>\<open>temperature\<close> 0.7 and \<^verbatim>\<open>stream\<close> false; when the request
  raises a \<^verbatim>\<open>RequestException\<close>, the status is in 400 to 599, or \<^verbatim>\<open>response.json()\<close>
  raises one of the two caught classes, it shows an error and returns \<^verbatim>\<open>None\<close>;
  otherwise it returns the parsed body and shows nothing.
\<close>

lemma query_ai_on_caught:
  assumes tok: "secrets e ''HF_TOKEN'' = Some tok"
    and req: "req = \<lparr>url = API_URL,
                      headers = [(''Authorization'', ''Bearer '' @ tok),
                                 (''Content-Type'', ''application/json'')],
                      body_json = \<lparr>p_messages = msgs, p_model = model, p_max_tokens = 500,
                                   p_temperature = 7 / 10, p_stream = False\<rparr>\<rparr>"
  shows "\<exists>errs. fst (query_ai e msgs model) = Post req # errs
           \<and> (\<forall>x \<in> set errs. \<exists>msg. x = StError msg)
           \<and> (\<forall>msg. http_post e req = Raises (RequestException msg) \<longrightarrow>
                 snd (query_ai e msgs model) = Inr JNull \<and> errs \<noteq> [])
           \<and> (\<forall>r. http_post e req = Responds r \<and> 400 \<le> status_code r \<and> status_code r < 600 \<longrightarrow>
                 snd (query_ai e msgs model) = Inr JNull \<and> errs \<noteq> [])
           \<and> (\<forall>r msg. http_post e req = Responds r
                   \<and> (json_result r = Inl (RequestException msg)
                        \<or> json_result r = Inl (JSONDecodeError msg)) \<longrightarrow>
                 snd (query_ai e msgs model) = Inr JNull \<and> errs \<noteq> [])
           \<and> (\<forall>r j. http_post e req = Responds r
                   \<and> \<not> (400 \<le> status_code r \<and> status_code r < 600) \<and> json_result r = Inr j \<longrightarrow>
                 snd (query_ai e msgs model) = Inr j \<and> errs = [])"
proof (cases "http_post e req")
  case (Raises ex)
  with tok req except_clauses_shown [of _ ex] show ?thesis
    by (cases ex) (auto simp: query_ai_def get_headers_def)
next
  case (Responds r)
  show ?thesis
  proof (cases "400 \<le> status_code r \<and> status_code r < 600")
    case True
    with tok req Responds show ?thesis
      by (simp add: query_ai_def get_headers_def raise_for_status_def)
  next
    case False
    show ?thesis
    proof (cases "json_result r")
      case (Inl ex)
      with tok req Responds False show ?thesis
        by (cases ex) (auto simp: query_ai_def get_headers_def raise_for_status_def)
    next
      case (Inr j)
      with tok req Responds False show ?thesis
        by (simp add: query_ai_def get_headers_def raise_for_status_def)
    qed
  qed
qed

text \<open>
  C5. The claim: on a malformed JSON body \<^verbatim>\<open>query_ai\<close> reports the failure and returns
  \<^verbatim>\<open>None\<close> without raising to its caller. The code does so only when the parser's
  exception is a \<^verbatim>\<open>JSONDecodeError\<close>. When \<^verbatim>\<open>response.json()\<close> raises
  \<^verbatim>\<open>RecursionError\<close> (a body of a hundred thousand opening brackets) or \<^verbatim>\<open>ValueError\<close>
  (a number of five thousand digits), neither \<^verbatim>\<open>except\<close> clause of lines 46 to 51
  matches: \<^verbatim>\<open>query_ai\<close> raises, shows no error, and the exception leaves the handler
  that called it.
\<close>

theorem query_ai_parser_error_raises:
  "snd (query_ai (api_parser_raising RecursionError)
          [\<lparr>role = ''user'', content = JStr ''hi''\<rparr>] default_model) = Inl RecursionError
   \<and> (\<forall>msg. StError msg \<notin> set (fst (query_ai (api_parser_raising RecursionError)
          [\<lparr>role = ''user'', content = JStr ''hi''\<rparr>] default_model)))
   \<and> snd (query_ai (api_parser_raising ValueError)
          [\<lparr>role = ''user'', content = JStr ''hi''\<rparr>] default_model) = Inl ValueError
   \<and> snd (snd (submit_message (api_parser_raising RecursionError) ''hello'' fresh))
       = Some RecursionError
   \<and> snd (snd (start_new_decision (api_parser_raising RecursionError) ''job'' fresh))
       = Some RecursionError"
  by (simp add: query_ai_def get_headers_def raise_for_status_def api_parser_raising_def
        submit_message_def start_new_decision_def fresh_def initialize_session_state_def)

text \<open>
  C6. For every context string the system prompt starts with the fixed template; for
  the empty context it is the template and nothing more; for a non-empty context it is
  the template, then the delimiter, then the context, so the template is never
  rewritten.
\<close>

theorem create_system_prompt_template:
  "prefix base_prompt (create_system_prompt c)
   \<and> create_system_prompt [] = base_prompt
   \<and> create_system_prompt c =
       base_prompt @ (if c = [] then [] else ''\<newline>\<newline>Current decision context: '' @ c)"
  by (simp add: create_system_prompt_def)

subsection \<open>The invariant of the history\<close>

lemma except_clauses_no_post: "Post req \<notin> set (fst (except_clauses ex))"
  by (cases ex) simp_all

lemma query_ai_posts:
  "Post req \<in> set (fst (query_ai e msgs model)) \<Longrightarrow> p_messages (body_json req) = msgs"
proof -
  have shown: "Post req \<notin> set shown" if "except_clauses ex = (shown, r)" for ex shown r
    using except_clauses_no_post [of req ex] that by simp
  show "Post req \<in> set (fst (query_ai e msgs model)) \<Longrightarrow> p_messages (body_json req) = msgs"
    by (auto simp: query_ai_def get_headers_def Let_def dest: shown
             split: option.splits http_outcome.splits sum.splits prod.splits)
qed

lemma no_system_simps:
  "no_system []"
  "no_system (m # ms) = (role m \<noteq> ''system'' \<and> no_system ms)"
  "no_system (ms @ ms') = (no_system ms \<and> no_system ms')"
  by (auto simp: no_system_def)

lemma start_new_decision_inv:
  assumes "start_new_decision e ctx s = (s', es, ex)"
  shows "(\<exists>ms. messages s' = Some ms \<and> no_system ms)
         \<and> decision_context s' = decision_context s
         \<and> (\<forall>req. Post req \<in> set es \<longrightarrow> p_messages (body_json req) = initial_messages ctx)"
proof (cases "ctx = []")
  case True
  with assms show ?thesis
    by (auto simp: start_new_decision_def no_system_simps)
next
  case False
  obtain qs r where q: "query_ai e (initial_messages ctx) default_model = (qs, r)"
    by (cases "query_ai e (initial_messages ctx) default_model")
  have posts: "\<forall>req. Post req \<in> set qs \<longrightarrow> p_messages (body_json req) = initial_messages ctx"
    using query_ai_posts[of _ e "initial_messages ctx" default_model] q by simp
  from assms False q have "es = qs"
    by (auto simp: start_new_decision_def Let_def split: sum.splits if_splits)
  moreover from assms False q
  have "(\<exists>ms. messages s' = Some ms \<and> no_system ms) \<and> decision_context s' = decision_context s"
    by (auto simp: start_new_decision_def Let_def no_system_simps user_message_def assistant_message_def
             split: sum.splits if_splits)
  ultimately show ?thesis using posts by simp
qed

lemma submit_message_inv:
  assumes "messages s = Some ms" and "no_system ms" and "decision_context s = Some ctx"
    and "submit_message e prompt s = (s', es, ex)"
  shows "(\<exists>ms'. messages s' = Some ms' \<and> no_system ms')
         \<and> decision_context s' = Some ctx
         \<and> (\<forall>req. Post req \<in> set es \<longrightarrow>
               p_messages (body_json req) = system_message ctx # ms @ [user_message prompt])"
proof -
  let ?msgs = "ai_messages ctx (ms @ [user_message prompt])"
  obtain qs r where q: "query_ai e ?msgs default_model = (qs, r)"
    by (cases "query_ai e ?msgs default_model")
  have posts: "\<forall>req. Post req \<in> set qs \<longrightarrow> p_messages (body_json req) = ?msgs"
    using query_ai_posts[of _ e ?msgs default_model] q by simp
  from assms q have "\<forall>req. Post req \<in> set es \<longrightarrow> Post req \<in> set qs"
    by (auto simp: submit_message_def Let_def split: sum.splits if_splits)
  moreover from assms q
  have "(\<exists>ms'. messages s' = Some ms' \<and> no_system ms') \<and> decision_context s' = Some ctx"
    by (auto simp: submit_message_def Let_def no_system_simps user_message_def assistant_message_def
             split: sum.splits if_splits)
  ultimately show ?thesis using posts by (simp add: ai_messages_def)
qed

lemma example_click_inv:
  assumes "messages s = Some ms" and "no_system ms"
    and "example_click p s = (s', es, ex)"
  shows "(\<exists>ms'. messages s' = Some ms' \<and> no_system ms')
         \<and> decision_context s' = decision_context s \<and> es = []"
  using assms by (auto simp: example_click_def no_system_simps user_message_def)

lemma show_history_no_post: "Post req \<notin> set (show_history ms)"
  by (auto simp: show_history_def)

lemma initialize_session_state_fields:
  "messages (initialize_session_state s) = Some (case messages s of None \<Rightarrow> [] | Some ms \<Rightarrow> ms)"
  "decision_context (initialize_session_state s) =
     Some (case decision_context s of None \<Rightarrow> [] | Some c \<Rightarrow> c)"
  by (auto simp: initialize_session_state_def Let_def split: option.splits)

lemma chat_interface_inv:
  assumes m: "messages s1 = Some ms" and ns: "no_system ms"
    and c: "decision_context s1 = Some ctx"
    and r: "chat_interface e u s1 = (s', es', ex')"
  shows "(\<exists>ms'. messages s' = Some ms' \<and> no_system ms')
         \<and> decision_context s' = Some ctx
         \<and> (\<forall>req. Post req \<in> set es' \<longrightarrow>
               (\<exists>rest. p_messages (body_json req) = system_message ctx # rest \<and> no_system rest))"
proof (cases "\<exists>prompt. chat_input u = Some prompt \<and> prompt \<noteq> []")
  case False
  then have "(case chat_input u of None \<Rightarrow> (s1, [], None)
              | Some prompt \<Rightarrow> if prompt \<noteq> [] then submit_message e prompt s1
                               else (s1, [], None)) = (s1, [], None)"
    by (auto split: option.splits)
  with r m ns c show ?thesis
    by (auto simp: chat_interface_def example_click_def show_history_no_post no_system_simps
                   user_message_def split: if_splits)
next
  case True
  then obtain prompt where p: "chat_input u = Some prompt" "prompt \<noteq> []" by blast
  obtain s2 es ex where sub: "submit_message e prompt s1 = (s2, es, ex)"
    by (cases "submit_message e prompt s1")
  from submit_message_inv [OF m ns c sub]
  obtain ms2 where m2: "messages s2 = Some ms2" and n2: "no_system ms2"
    and c2: "decision_context s2 = Some ctx"
    and posts: "\<forall>req. Post req \<in> set es \<longrightarrow>
                  p_messages (body_json req) = system_message ctx # ms @ [user_message prompt]"
    by blast
  have rest: "no_system (ms @ [user_message prompt])"
    using ns by (simp add: no_system_simps user_message_def)
  from r m p sub m2 n2 c2 posts rest show ?thesis
    by (auto simp: chat_interface_def example_click_def show_history_no_post no_system_simps
                   user_message_def split: option.splits if_splits)
qed

text \<open>
  C7. Whatever the user does in a run of the script (start a decision, clear, submit a
  chat message, press an example button, or nothing), a history without a message of
  the role \<^verbatim>\<open>system\<close> stays without one. And every request the run sends starts with
  the message whose role is \<^verbatim>\<open>system\<close> and whose content is the system prompt built
  from the decision context of that run (the text of the text area, which the run has
  copied into the session state), followed by messages none of which has the role
  \<^verbatim>\<open>system\<close>.
\<close>

theorem main_never_stores_system:
  assumes "\<forall>ms. messages s0 = Some ms \<longrightarrow> (\<forall>m \<in> set ms. role m \<noteq> ''system'')"
  shows "(\<exists>ms'. messages (fst (main e u s0)) = Some ms' \<and> (\<forall>m \<in> set ms'. role m \<noteq> ''system''))
         \<and> decision_context (fst (main e u s0)) = Some (text_area u)
         \<and> (\<forall>req. Post req \<in> set (fst (snd (main e u s0))) \<longrightarrow>
               (\<exists>rest. p_messages (body_json req) =
                         \<lparr>role = ''system'',
                           content = JStr (create_system_prompt (text_area u))\<rparr> # rest
                       \<and> (\<forall>m \<in> set rest. role m \<noteq> ''system'')))"
proof -
  let ?s = "initialize_session_state s0"
  let ?ctx = "text_area u"
  obtain old where old: "decision_context ?s = Some old"
    by (simp add: initialize_session_state_fields)
  have "\<exists>ms. messages ?s = Some ms \<and> no_system ms"
  proof (cases "messages s0")
    case None
    then show ?thesis
      by (simp add: initialize_session_state_fields no_system_def)
  next
    case (Some ms0)
    with assms show ?thesis
      by (simp add: initialize_session_state_fields no_system_def)
  qed
  then obtain ms where ms: "messages ?s = Some ms" and ns: "no_system ms"
    by blast
  let ?s1 = "if ?ctx \<noteq> old then ?s\<lparr>decision_context := Some ?ctx\<rparr> else ?s"
  have s1c: "decision_context ?s1 = Some ?ctx" and s1m: "messages ?s1 = Some ms"
    using old ms by auto
  have run: "main e u s0 =
               (if start_button u then start_new_decision e ?ctx ?s1
                else if clear_button u then clear_conversation ?s1
                else chat_interface e u ?s1)"
    using old by (simp add: main_def Let_def)
  obtain s' es' ex' where res: "main e u s0 = (s', es', ex')"
    by (cases "main e u s0")
  have "(\<exists>ms'. messages s' = Some ms' \<and> no_system ms')
         \<and> decision_context s' = Some ?ctx
         \<and> (\<forall>req. Post req \<in> set es' \<longrightarrow>
               (\<exists>rest. p_messages (body_json req) = system_message ?ctx # rest \<and> no_system rest))"
  proof (cases "start_button u")
    case True
    with run res have "start_new_decision e ?ctx ?s1 = (s', es', ex')" by simp
    from start_new_decision_inv [OF this] s1c show ?thesis
      by (auto simp: initial_messages_def no_system_simps user_message_def)
  next
    case nostart: False
    show ?thesis
    proof (cases "clear_button u")
      case True
      with nostart run res have "clear_conversation ?s1 = (s', es', ex')" by simp
      with s1c show ?thesis
        by (auto simp: clear_conversation_def no_system_simps)
    next
      case False
      with nostart run res have "chat_interface e u ?s1 = (s', es', ex')" by simp
      from chat_interface_inv [OF s1m ns s1c this] show ?thesis .
    qed
  qed
  with res show ?thesis
    by (simp add: no_system_def system_message_def)
qed

theorem main_never_stores_system_witness:
  "messages (fresh\<lparr>messages := Some [\<lparr>role = ''user'', content = JStr ''a''\<rparr>,
                                      \<lparr>role = ''assistant'', content = JStr ''b''\<rparr>]\<rparr>)
     = Some [\<lparr>role = ''user'', content = JStr ''a''\<rparr>,
             \<lparr>role = ''assistant'', content = JStr ''b''\<rparr>]
   \<and> messages (fst (main (api_returning (reply_with (JStr ''Hi'')))
        \<lparr>text_area = ''job'', start_button = False, clear_button = False,
          chat_input = Some ''hello'', moving_button = False, education_button = False,
          career_button = False\<rparr>
        (fresh\<lparr>messages := Some [\<lparr>role = ''user'', content = JStr ''a''\<rparr>,
                                  \<lparr>role = ''assistant'', content = JStr ''b''\<rparr>]\<rparr>)))
       = Some [\<lparr>role = ''user'', content = JStr ''a''\<rparr>,
               \<lparr>role = ''assistant'', content = JStr ''b''\<rparr>,
               \<lparr>role = ''user'', content = JStr ''hello''\<rparr>,
               \<lparr>role = ''assistant'', content = JStr ''Hi''\<rparr>]
   \<and> decision_context (fst (main (api_returning (reply_with (JStr ''Hi'')))
        \<lparr>text_area = ''job'', start_button = False, clear_button = False,
          chat_input = Some ''hello'', moving_button = False, education_button = False,
          career_button = False\<rparr>
        (fresh\<lparr>messages := Some [\<lparr>role = ''user'', content = JStr ''a''\<rparr>,
                                  \<lparr>role = ''assistant'', content = JStr ''b''\<rparr>]\<rparr>))) = Some ''job''
   \<and> fst (snd (main (api_returning (reply_with (JStr ''Hi'')))
        \<lparr>text_area = ''job'', start_button = False, clear_button = False,
          chat_input = Some ''hello'', moving_button = False, education_button = False,
          career_button = False\<rparr>
        (fresh\<lparr>messages := Some [\<lparr>role = ''user'', content = JStr ''a''\<rparr>,
                                  \<lparr>role = ''assistant'', content = JStr ''b''\<rparr>]\<rparr>)))
       = [ChatMessage ''user'' (JStr ''a''), ChatMessage ''assistant'' (JStr ''b''),
          ChatMessage ''user'' (JStr ''hello''),
          Post \<lparr>url = API_URL,
                headers = [(''Authorization'', ''Bearer token''),
                           (''Content-Type'', ''application/json'')],
                body_json =
                  \<lparr>p_messages =
                     [\<lparr>role = ''system'',
                       content = JStr (base_prompt @ ''\<newline>\<newline>Current decision context: job'')\<rparr>,
                      \<lparr>role = ''user'', content = JStr ''a''\<rparr>,
                      \<lparr>role = ''assistant'', content = JStr ''b''\<rparr>,
                      \<lparr>role = ''user'', content = JStr ''hello''\<rparr>],
                   p_model = default_model, p_max_tokens = 500, p_temperature = 7 / 10,
                   p_stream = False\<rparr>\<rparr>,
          ChatMessage ''assistant'' (JStr ''Hi'')]"
proof -
  let ?u = "\<lparr>text_area = ''job'', start_button = False, clear_button = False,
          chat_input = Some ''hello'', moving_button = False, education_button = False,
          career_button = False\<rparr>"
  let ?e = "api_returning (reply_with (JStr ''Hi''))"
  let ?ms = "[\<lparr>role = ''user'', content = JStr ''a''\<rparr>,
              \<lparr>role = ''assistant'', content = JStr ''b''\<rparr>]"
  let ?s = "fresh\<lparr>messages := Some ?ms\<rparr>"
  have pre: "\<forall>ms. messages ?s = Some ms \<longrightarrow> (\<forall>m \<in> set ms. role m \<noteq> ''system'')"
    by simp
  have run: "main ?e ?u ?s =
      (?s\<lparr>decision_context := Some ''job'',
           messages := Some (?ms @ [\<lparr>role = ''user'', content = JStr ''hello''\<rparr>,
                                    \<lparr>role = ''assistant'', content = JStr ''Hi''\<rparr>])\<rparr>,
       [ChatMessage ''user'' (JStr ''a''), ChatMessage ''assistant'' (JStr ''b''),
          ChatMessage ''user'' (JStr ''hello''),
          Post \<lparr>url = API_URL,
                headers = [(''Authorization'', ''Bearer token''),
                           (''Content-Type'', ''application/json'')],
                body_json =
                  \<lparr>p_messages =
                     [\<lparr>role = ''system'',
                       content = JStr (base_prompt @ ''\<newline>\<newline>Current decision context: job'')\<rparr>,
                      \<lparr>role = ''user'', content = JStr ''a''\<rparr>,
                      \<lparr>role = ''assistant'', content = JStr ''b''\<rparr>,
                      \<lparr>role = ''user'', content = JStr ''hello''\<rparr>],
                   p_model = default_model, p_max_tokens = 500, p_temperature = 7 / 10,
                   p_stream = False\<rparr>\<rparr>,
          ChatMessage ''assistant'' (JStr ''Hi'')],
       None)"
    by (simp add: main_def chat_interface_def submit_message_def fresh_def Let_def
          initialize_session_state_def query_ai_def get_headers_def raise_for_status_def
          has_choices_def ai_message_of_def api_returning_def reply_with_def show_history_def
          ai_messages_def system_message_def user_message_def assistant_message_def
          create_system_prompt_def)
  show ?thesis
    using run main_never_stores_system [OF pre, of ?e ?u]
    by simp
qed

text \<open>
  C8. "Clear Conversation" leaves the history empty from every state, and doing it
  twice is the same as doing it once; a run of the script with that button pressed
  leaves the history empty, and so does the run after it.
\<close>

theorem clear_conversation_empty:
  "messages (fst (clear_conversation s)) = Some []
   \<and> clear_conversation (fst (clear_conversation s)) = clear_conversation s
   \<and> (clear_button u \<and> \<not> start_button u \<longrightarrow>
        messages (fst (main e u s)) = Some []
        \<and> messages (fst (main e u (fst (main e u s)))) = Some [])"
  by (auto simp: clear_conversation_def main_def initialize_session_state_def Let_def
           split: option.splits)

theorem clear_conversation_empty_witness:
  "clear_button \<lparr>text_area = ''job'', start_button = False, clear_button = True,
                  chat_input = None, moving_button = False, education_button = False,
                  career_button = False\<rparr>
   \<and> \<not> start_button \<lparr>text_area = ''job'', start_button = False, clear_button = True,
                  chat_input = None, moving_button = False, education_button = False,
                  career_button = False\<rparr>
   \<and> messages (fst (main api_unreachable
        \<lparr>text_area = ''job'', start_button = False, clear_button = True,
          chat_input = None, moving_button = False, education_button = False,
          career_button = False\<rparr>
        (fresh\<lparr>messages := Some [user_message ''a'']\<rparr>))) = Some []"
  using clear_conversation_empty [of "fresh\<lparr>messages := Some [user_message ''a'']\<rparr>"
      "\<lparr>text_area = ''job'', start_button = False, clear_button = True,
          chat_input = None, moving_button = False, education_button = False,
          career_button = False\<rparr>" api_unreachable]
  by simp

text \<open>
  C9. The button of the "moving decision" example appends one user message with the
  fixed scenario text, leaves the earlier messages as they were and has no effect on
  the outside, so no request is sent; in a run of the script with that button pressed
  on an empty history, the history afterwards is that one message.
\<close>

theorem example_click_moving:
  "(messages s = Some ms \<longrightarrow>
      example_click moving_prompt s =
        (s\<lparr>messages := Some (ms @ [\<lparr>role = ''user'', content = JStr moving_prompt\<rparr>])\<rparr>,
         [], Some RerunException))
   \<and> moving_prompt = ''I'm trying to decide whether to move to a new city for a job opportunity. Can you help me think through this decision?''
   \<and> (moving_button u \<and> \<not> start_button u \<and> \<not> clear_button u \<and> chat_input u = None
        \<and> (messages s = None \<or> messages s = Some []) \<longrightarrow>
        messages (fst (main e u s)) = Some [\<lparr>role = ''user'', content = JStr moving_prompt\<rparr>]
        \<and> fst (snd (main e u s)) = [])"
  by (auto simp: example_click_def user_message_def moving_prompt_def main_def
                 chat_interface_def initialize_session_state_def Let_def show_history_def
           split: option.splits)

theorem example_click_moving_witness:
  "messages (fresh\<lparr>messages := Some [user_message ''a'']\<rparr>) = Some [user_message ''a'']
   \<and> example_click moving_prompt (fresh\<lparr>messages := Some [user_message ''a'']\<rparr>) =
       (fresh\<lparr>messages := Some [user_message ''a'',
                                 \<lparr>role = ''user'', content = JStr moving_prompt\<rparr>]\<rparr>,
        [], Some RerunException)
   \<and> messages (fst (main api_unreachable
        \<lparr>text_area = [], start_button = False, clear_button = False,
          chat_input = None, moving_button = True, education_button = False,
          career_button = False\<rparr> fresh)) = Some [\<lparr>role = ''user'', content = JStr moving_prompt\<rparr>]
   \<and> fst (snd (main api_unreachable
        \<lparr>text_area = [], start_button = False, clear_button = False,
          chat_input = None, moving_button = True, education_button = False,
          career_button = False\<rparr> fresh)) = []"
proof -
  have m: "messages fresh = Some []"
    by (simp add: fresh_def initialize_session_state_def)
  show ?thesis
    using m
      example_click_moving [of "fresh\<lparr>messages := Some [user_message ''a'']\<rparr>"
        "[user_message ''a'']"]
      example_click_moving [of fresh "[]"
        "\<lparr>text_area = [], start_button = False, clear_button = False,
          chat_input = None, moving_button = True, education_button = False,
          career_button = False\<rparr>" api_unreachable]
    by simp
qed

text \<open>
  C10. \<^verbatim>\<open>initialize_session_state\<close> keeps the value of every key that is present and
  sets an absent key to its default (the empty list, the empty string, the empty
  string); on a state with all three keys it changes nothing; applying it twice is the
  same as applying it once.
\<close>

theorem initialize_session_state_keeps:
  "messages (initialize_session_state s) = Some (case messages s of None \<Rightarrow> [] | Some ms \<Rightarrow> ms)
   \<and> decision_context (initialize_session_state s) =
        Some (case decision_context s of None \<Rightarrow> [] | Some c \<Rightarrow> c)
   \<and> current_decision (initialize_session_state s) =
        Some (case current_decision s of None \<Rightarrow> [] | Some c \<Rightarrow> c)
   \<and> (messages s \<noteq> None \<and> decision_context s \<noteq> None \<and> current_decision s \<noteq> None \<longrightarrow>
        initialize_session_state s = s)
   \<and> initialize_session_state (initialize_session_state s) = initialize_session_state s"
  by (auto simp: initialize_session_state_def Let_def split: option.splits)

theorem initialize_session_state_keeps_witness:
  "initialize_session_state
     \<lparr>messages = Some [user_message ''a''], decision_context = Some ''job'',
      current_decision = Some ''job''\<rparr>
   = \<lparr>messages = Some [user_message ''a''], decision_context = Some ''job'',
      current_decision = Some ''job''\<rparr>"
  using initialize_session_state_keeps
    [of "\<lparr>messages = Some [user_message ''a''], decision_context = Some ''job'',
          current_decision = Some ''job''\<rparr>"]
  by simp

end
